theory Spec2Isabelle
  imports Main "HOL-Library.AList"
begin

section \<open>JavaScript values\<close>

text \<open>
  The values the server reads out of request bodies, tool arguments and database rows.
  \<open>JUndefined\<close> is a missing property or an absent argument, \<open>JNaN\<close> the result of
  \<open>Number(undefined)\<close>. Numbers are integers here: the program only tests a number for
  truthiness and prints it, and a fractional number is truthy like any non-zero integer.
  Printing is that of integers below \<open>10^21\<close> in size, which JavaScript prints digit by
  digit.
\<close>

datatype jsval =
    JUndefined
  | JNull
  | JBool bool
  | JNum int
  | JNaN
  | JStr string
  | JArr "jsval list"
  | JObj "(string \<times> jsval) list"

text \<open>What \<open>!x\<close> and \<open>x || y\<close> test.\<close>

fun truthy :: "jsval \<Rightarrow> bool" where
  "truthy JUndefined = False"
| "truthy JNull = False"
| "truthy (JBool b) = b"
| "truthy (JNum n) = (n \<noteq> 0)"
| "truthy JNaN = False"
| "truthy (JStr s) = (s \<noteq> [])"
| "truthy (JArr xs) = True"
| "truthy (JObj kvs) = True"

definition js_or :: "jsval \<Rightarrow> jsval \<Rightarrow> jsval" where
  "js_or a b = (if truthy a then a else b)"

text \<open>
  Reading a property \<open>v.k\<close> of a value that is neither \<open>undefined\<close> nor \<open>null\<close>.
  The program reads only the names \<open>database_type\<close>, \<open>connection_info\<close>, \<open>table_name\<close>,
  \<open>host\<close>, \<open>port\<close>, \<open>user\<close>, \<open>password\<close> and \<open>database\<close> this way; none of them is
  defined on a built-in prototype, so a value that is not an object, or an object without
  the key, gives \<open>undefined\<close>.
\<close>

fun js_get :: "jsval \<Rightarrow> string \<Rightarrow> jsval" where
  "js_get (JObj kvs) k = (case map_of kvs k of Some v \<Rightarrow> v | None \<Rightarrow> JUndefined)"
| "js_get v k = JUndefined"

subsection \<open>Strings\<close>

definition newline :: string where
  "newline = [CHR 0x0A]"

definition dquote :: string where
  "dquote = [CHR 0x22]"

definition lower_char :: "char \<Rightarrow> char" where
  "lower_char c =
     (let n = (of_char c :: nat) in if 65 \<le> n \<and> n \<le> 90 then char_of (n + 32) else c)"

text \<open>
  \<open>String.prototype.toLowerCase\<close> on the ASCII letters. No character outside ASCII is
  lowered to a letter of \<open>postgresql\<close>, so the comparisons below read the same.
\<close>

definition toLowerCase :: "string \<Rightarrow> string" where
  "toLowerCase s = map lower_char s"

fun show_nat :: "nat \<Rightarrow> string" where
  "show_nat n =
     (if n < 10 then [char_of (48 + n)] else show_nat (n div 10) @ [char_of (48 + n mod 10)])"

declare show_nat.simps [simp del]

definition show_int :: "int \<Rightarrow> string" where
  "show_int i = (if i < 0 then CHR ''-'' # show_nat (nat (- i)) else show_nat (nat i))"

fun join_comma :: "string list \<Rightarrow> string" where
  "join_comma [] = []"
| "join_comma [s] = s"
| "join_comma (s # t # ts) = s @ '','' @ join_comma (t # ts)"

text \<open>The conversion a template literal \<open>`${v}`\<close> applies to \<open>v\<close>.\<close>

fun js_to_string :: "jsval \<Rightarrow> string" where
  "js_to_string JUndefined = ''undefined''"
| "js_to_string JNull = ''null''"
| "js_to_string (JBool b) = (if b then ''true'' else ''false'')"
| "js_to_string (JNum n) = show_int n"
| "js_to_string JNaN = ''NaN''"
| "js_to_string (JStr s) = s"
| "js_to_string (JArr xs) =
     join_comma (map (\<lambda>x. if x = JUndefined \<or> x = JNull then [] else js_to_string x) xs)"
| "js_to_string (JObj kvs) = ''[object Object]''"

section \<open>Errors, tool results and the outside world\<close>

text \<open>A thrown \<open>Error\<close> object: its \<open>name\<close> and its \<open>message\<close>.\<close>

datatype js_error = JsError (err_name: string) (err_message: string)

definition Error :: "string \<Rightarrow> js_error" where
  "Error msg = JsError ''Error'' msg"

definition TypeError :: "string \<Rightarrow> js_error" where
  "TypeError msg = JsError ''TypeError'' msg"

text \<open>\<open>String(err)\<close>, that is \<open>Error.prototype.toString\<close>.\<close>

definition error_to_string :: "js_error \<Rightarrow> string" where
  "error_to_string e =
     (if err_name e = [] then err_message e
      else if err_message e = [] then err_name e
      else err_name e @ '': '' @ err_message e)"

datatype content = Text string

record DBConnectionInfo =
  host :: jsval
  port :: jsval
  user :: jsval
  password :: jsval
  database :: jsval

record column_row =
  column_name :: jsval
  data_type :: jsval
  character_maximum_length :: jsval

text \<open>
  What the server calls but does not define: the \<open>pg\<close> client, \<open>process.env\<close>, the
  built-ins \<open>Number\<close> and \<open>JSON.stringify\<close>. They are parameters of the model.
  \<open>pg_columns conn table\<close> is the outcome of \<open>new Client(conn)\<close>, \<open>connect\<close>, the column
  query for \<open>table\<close> and \<open>end\<close> inside the \<open>try\<close>: the value \<open>ddlRows\<close> has afterwards
  (empty unless the query returned) and the error one of the four threw, if any.
  \<open>Number_of\<close> gives \<open>Number(s)\<close> for a string \<open>s\<close>, \<open>None\<close> being \<open>NaN\<close>.
\<close>

record executor_env =
  process_env :: "string \<Rightarrow> string option"
  Number_of :: "string \<Rightarrow> int option"
  pg_columns :: "DBConnectionInfo \<Rightarrow> jsval \<Rightarrow> column_row list \<times> js_error option"
  JSON_stringify :: "column_row list \<Rightarrow> string"

definition env_var :: "executor_env \<Rightarrow> string \<Rightarrow> jsval" where
  "env_var ex k = (case process_env ex k of None \<Rightarrow> JUndefined | Some s \<Rightarrow> JStr s)"

text \<open>\<open>Number(process.env.K)\<close>; \<open>Number(undefined)\<close> is \<open>NaN\<close>.\<close>

definition env_number :: "executor_env \<Rightarrow> string \<Rightarrow> jsval" where
  "env_number ex k =
     (case process_env ex k of
        None \<Rightarrow> JNaN
      | Some s \<Rightarrow> (case Number_of ex s of None \<Rightarrow> JNaN | Some n \<Rightarrow> JNum n))"

section \<open>The tool executor: \<open>handleGetDDLTool\<close>\<close>

definition getDDLToolName :: string where
  "getDDLToolName = ''get_database_table_ddl''"

definition missing_parameters_text :: string where
  "missing_parameters_text =
     ''Missing required parameters: database_type, connection_info, or table_name.''"

definition unsupported_text :: "string \<Rightarrow> string" where
  "unsupported_text d = ''Unsupported database type: '' @ d @ ''. Only PostgreSQL is supported.''"

definition incomplete_text :: string where
  "incomplete_text =
     ''Database connection info is incomplete. Please provide all required fields or set them in .env.''"

text \<open>The fallback to \<open>.env\<close> for every field of \<open>connection_info\<close> that is missing or falsy.\<close>

definition make_conn :: "executor_env \<Rightarrow> jsval \<Rightarrow> DBConnectionInfo" where
  "make_conn ex connection_info =
     \<lparr> host = js_or (js_get connection_info ''host'') (env_var ex ''PGHOST''),
       port = js_or (js_get connection_info ''port'') (env_number ex ''PGPORT''),
       user = js_or (js_get connection_info ''user'') (env_var ex ''PGUSER''),
       password = js_or (js_get connection_info ''password'') (env_var ex ''PGPASSWORD''),
       database = js_or (js_get connection_info ''database'') (env_var ex ''PGDATABASE'') \<rparr>"

definition conn_incomplete :: "DBConnectionInfo \<Rightarrow> bool" where
  "conn_incomplete conn =
     (\<not> truthy (host conn) \<or> \<not> truthy (port conn) \<or> \<not> truthy (user conn)
      \<or> \<not> truthy (password conn) \<or> \<not> truthy (database conn))"

text \<open>\<open>err.message || String(err)\<close> in the \<open>catch\<close> around the database calls.\<close>

definition ddl_error_of :: "js_error \<Rightarrow> string" where
  "ddl_error_of e = (if err_message e \<noteq> [] then err_message e else error_to_string e)"

definition dictionary_line :: "column_row \<Rightarrow> string" where
  "dictionary_line row =
     ''- '' @ js_to_string (column_name row) @ '': '' @ js_to_string (data_type row)
     @ (if truthy (character_maximum_length row)
        then ''('' @ js_to_string (character_maximum_length row) @ '')'' else [])
     @ newline"

definition data_dictionary :: "jsval \<Rightarrow> column_row list \<Rightarrow> string" where
  "data_dictionary table_name ddlRows =
     ''Table '' @ dquote @ js_to_string table_name @ dquote @ '' columns:'' @ newline
     @ (if ddlRows = [] then ''No columns found.''
        else foldl (\<lambda>acc row. acc @ dictionary_line row) [] ddlRows)"

text \<open>
  \<open>handleGetDDLTool\<close>. \<open>Inl\<close> is an exception leaving the function, \<open>Inr\<close> the returned
  \<open>content\<close> array. Destructuring \<open>undefined\<close> or \<open>null\<close> throws, and so does
  \<open>database_type.toLowerCase()\<close> when \<open>database_type\<close> is truthy and not a string (the
  message of the first is abbreviated). \<open>ddlError\<close> is \<open>null\<close> or a string and is only
  tested for truthiness, so \<open>null\<close> is the empty string here; an error whose text is empty
  fails the test \<open>if (ddlError)\<close> like no error.
\<close>

definition handleGetDDLTool :: "executor_env \<Rightarrow> jsval \<Rightarrow> js_error + content list" where
  "handleGetDDLTool ex args =
     (if args = JUndefined \<or> args = JNull
      then Inl (TypeError ''Cannot destructure property database_type of args'')
      else
        let database_type = js_get args ''database_type'';
            connection_info = js_get args ''connection_info'';
            table_name = js_get args ''table_name''
        in
        if \<not> truthy database_type \<or> \<not> truthy connection_info \<or> \<not> truthy table_name
        then Inr [Text missing_parameters_text]
        else
          (case database_type of
             JStr d \<Rightarrow>
               if toLowerCase d \<noteq> ''postgresql'' \<and> toLowerCase d \<noteq> ''postgres''
               then Inr [Text (unsupported_text d)]
               else
                 let conn = make_conn ex connection_info in
                 if conn_incomplete conn then Inr [Text incomplete_text]
                 else
                   let (ddlRows, thrown) = pg_columns ex conn table_name;
                       ddlError = (case thrown of None \<Rightarrow> [] | Some err \<Rightarrow> ddl_error_of err)
                   in
                   if ddlError \<noteq> [] then Inr [Text (''Failed to retrieve DDL: '' @ ddlError)]
                   else
                     Inr [Text (''DDL (columns):'' @ newline @ JSON_stringify ex ddlRows),
                          Text (''Data Dictionary:'' @ newline
                                @ data_dictionary table_name ddlRows)]
           | _ \<Rightarrow> Inl (TypeError ''database_type.toLowerCase is not a function'')))"

section \<open>The call-tool request handler\<close>

text \<open>
  The handler \<open>setupTools\<close> registers for \<open>CallToolRequestSchema\<close>. \<open>args\<close> is
  \<open>request.params.arguments\<close> (\<open>JUndefined\<close> when the request has none) and \<open>toolName\<close> is
  \<open>request.params.name\<close>. \<open>Inl\<close> is the handler throwing.
\<close>

definition callToolHandler :: "executor_env \<Rightarrow> jsval \<Rightarrow> string \<Rightarrow> js_error + content list" where
  "callToolHandler ex args toolName =
     (if \<not> truthy args then Inl (Error ''arguments undefined'')
      else if toolName = [] then Inl (Error ''tool name undefined'')
      else if toolName = getDDLToolName then handleGetDDLTool ex args
      else Inl (Error ''Tool not found''))"

section \<open>Envelopes, notifications and the tool catalog\<close>

definition SESSION_ID_HEADER_NAME :: string where
  "SESSION_ID_HEADER_NAME = ''mcp-session-id''"

definition JSON_RPC :: string where
  "JSON_RPC = ''2.0''"

datatype notification = Notification (note_method: string) (note_params: jsval)

datatype JSONRPCNotification =
  JSONRPCNotification (rpc_version: string) (rpc_method: string) (rpc_params: jsval)

datatype JSONRPCError =
  JSONRPCError (error_version: string) (error_code: int) (error_message: string)
    (error_id: string)

record tool =
  name :: string
  description :: string
  inputSchema :: jsval

definition string_schema :: jsval where
  "string_schema = JObj [(''type'', JStr ''string'')]"

definition getDDLTool :: tool where
  "getDDLTool =
     \<lparr> name = getDDLToolName,
       description =
         ''Retrieves the DDL for a specified table and generates a human-readable data dictionary using AI reasoning.'',
       inputSchema =
         JObj
          [(''type'', JStr ''object''),
           (''properties'',
            JObj
             [(''database_type'',
               JObj [(''type'', JStr ''string''),
                     (''description'', JStr ''Type of database (e.g., PostgreSQL)'')]),
              (''connection_info'',
               JObj
                [(''type'', JStr ''object''),
                 (''properties'',
                  JObj
                   [(''host'', string_schema),
                    (''port'', JObj [(''type'', JStr ''number'')]),
                    (''user'', string_schema),
                    (''password'', string_schema),
                    (''database'', string_schema)]),
                 (''required'',
                  JArr [JStr ''host'', JStr ''port'', JStr ''user'', JStr ''password'',
                        JStr ''database''])]),
              (''table_name'',
               JObj [(''type'', JStr ''string''),
                     (''description'', JStr ''Name of the table'')])]),
           (''required'',
            JArr [JStr ''database_type'', JStr ''connection_info'', JStr ''table_name''])] \<rparr>"

text \<open>What the handler registered for \<open>ListToolsRequestSchema\<close> answers: \<open>{ tools: [getDDLTool] }\<close>.\<close>

definition listToolsHandler :: "tool list" where
  "listToolsHandler = [getDDLTool]"

definition tool_list_changed :: notification where
  "tool_list_changed = Notification ''notifications/tools/list_changed'' JUndefined"

definition logging_message :: "string \<Rightarrow> notification" where
  "logging_message d =
     Notification ''notifications/message'' (JObj [(''level'', JStr ''info''), (''data'', JStr d)])"

section \<open>The server and what surrounds it\<close>

record request =
  headers :: "(string \<times> string) list"
  body :: jsval

text \<open>
  What a call of \<open>transport.handleRequest\<close> does, as far as this server can see: whether
  the transport ran its \<open>sessionIdGenerator\<close> (it does when it accepts an initialize
  request) and whether the call threw.
\<close>

datatype sdk_outcome = SdkOutcome (runs_generator: bool) (throws: "js_error option")

text \<open>
  The MCP SDK, \<open>crypto\<close> and the transports' peers are parameters of the model.
  \<open>randomUUID i\<close> is the value of the \<open>i\<close>-th call of \<open>randomUUID()\<close>;
  \<open>initialize_ok v\<close> is \<open>InitializeRequestSchema.safeParse(v).success\<close>;
  \<open>connect_outcome t\<close> is the error \<open>server.connect\<close> throws for transport \<open>t\<close>, if any;
  \<open>send_rejects t m\<close> says whether the promise of \<open>transport.send(m)\<close> on \<open>t\<close> rejects.
  Transports are named by the order of their construction.
\<close>

record sdk_env =
  randomUUID :: "nat \<Rightarrow> string"
  initialize_ok :: "jsval \<Rightarrow> bool"
  connect_outcome :: "nat \<Rightarrow> js_error option"
  handleRequest_outcome :: "nat \<Rightarrow> request \<Rightarrow> sdk_outcome"
  send_rejects :: "nat \<Rightarrow> JSONRPCNotification \<Rightarrow> bool"

text \<open>The closure of one interval created by \<open>streamMessages\<close>.\<close>

record stream_timer =
  stream_transport :: nat
  messageCount :: nat
  cleared :: bool

text \<open>
  The \<open>MCPServer\<close> object and the effects it has had.
  \<open>transports\<close> holds the own properties of \<open>this.transports\<close> in insertion order;
  \<open>list_tools\<close> is the answer of the list-tools handler now registered;
  \<open>constructed\<close> counts the transports built so far and \<open>uuids_drawn\<close> the calls of
  \<open>randomUUID()\<close>; \<open>sent\<close> lists the calls of \<open>transport.send\<close> in order; \<open>unhandled\<close>
  lists the sends whose promise rejected (no caller awaits \<open>sendNotification\<close>);
  \<open>console\<close> is what \<open>console.error\<close> printed; \<open>intervals\<close> are the stream timers.
\<close>

record server_state =
  transports :: "(string \<times> nat) list"
  list_tools :: "tool list option"
  toolInterval :: bool
  constructed :: nat
  uuids_drawn :: nat
  sent :: "(nat \<times> JSONRPCNotification) list"
  unhandled :: "(nat \<times> JSONRPCNotification) list"
  console :: "(string \<times> js_error) list"
  intervals :: "stream_timer list"

text \<open>What a handler did with \<open>res\<close>: wrote an error envelope, or left the response to a transport.\<close>

datatype http_reply = Json nat JSONRPCError | ByTransport nat

subsection \<open>The registry \<open>this.transports\<close>\<close>

text \<open>
  \<open>this.transports\<close> is an object literal, so \<open>this.transports[k]\<close> finds an own property
  or else a member inherited from \<open>Object.prototype\<close>: a function, or for \<open>__proto__\<close> the
  prototype itself. All of them are truthy and none has a \<open>handleRequest\<close>.
\<close>

definition Object_prototype_keys :: "string list" where
  "Object_prototype_keys =
     [''constructor'', ''__proto__'', ''hasOwnProperty'', ''isPrototypeOf'',
      ''propertyIsEnumerable'', ''toLocaleString'', ''toString'', ''valueOf'',
      ''__defineGetter__'', ''__defineSetter__'', ''__lookupGetter__'', ''__lookupSetter__'']"

datatype registry_value = Transport nat | Inherited string

definition transports_get :: "(string \<times> nat) list \<Rightarrow> string \<Rightarrow> registry_value option" where
  "transports_get r k =
     (case map_of r k of
        Some t \<Rightarrow> Some (Transport t)
      | None \<Rightarrow> if k \<in> set Object_prototype_keys then Some (Inherited k) else None)"

text \<open>
  \<open>this.transports[k] = t\<close> for a key other than \<open>__proto__\<close> (an identifier made by
  \<open>randomUUID\<close> has 36 characters): an existing key keeps its place, a new one goes last.
\<close>

definition transports_set :: "string \<Rightarrow> nat \<Rightarrow> (string \<times> nat) list \<Rightarrow> (string \<times> nat) list" where
  "transports_set k t r = AList.update k t r"

text \<open>
  \<open>Object.values\<close> lists the own properties in insertion order, the keys being no
  integer indices.
\<close>

definition Object_values :: "(string \<times> nat) list \<Rightarrow> nat list" where
  "Object_values r = map snd r"

text \<open>\<open>sessionId && this.transports[sessionId]\<close>: \<open>None\<close> when the conjunction is falsy.\<close>

definition resolve :: "server_state \<Rightarrow> string option \<Rightarrow> registry_value option" where
  "resolve s sessionId =
     (case sessionId of
        None \<Rightarrow> None
      | Some k \<Rightarrow> if k = [] then None else transports_get (transports s) k)"

subsection \<open>Helpers of the class\<close>

definition createErrorResponse :: "sdk_env \<Rightarrow> server_state \<Rightarrow> string \<Rightarrow> server_state \<times> JSONRPCError" where
  "createErrorResponse sdk s message =
     (s\<lparr>uuids_drawn := Suc (uuids_drawn s)\<rparr>,
      JSONRPCError ''2.0'' (- 32000) message (randomUUID sdk (uuids_drawn s)))"

definition isInitializeRequest :: "sdk_env \<Rightarrow> jsval \<Rightarrow> bool" where
  "isInitializeRequest sdk b =
     (case b of JArr xs \<Rightarrow> list_ex (initialize_ok sdk) xs | _ \<Rightarrow> initialize_ok sdk b)"

text \<open>
  \<open>sendNotification\<close> is \<open>async\<close> and is never awaited: the call of \<open>transport.send\<close> is made,
  and a rejection reaches no \<open>catch\<close> of the caller.
\<close>

definition sendNotification :: "sdk_env \<Rightarrow> server_state \<Rightarrow> nat \<Rightarrow> notification \<Rightarrow> server_state" where
  "sendNotification sdk s t n =
     (let rpcNotification = JSONRPCNotification JSON_RPC (note_method n) (note_params n);
          s1 = s\<lparr>sent := sent s @ [(t, rpcNotification)]\<rparr>
      in if send_rejects sdk t rpcNotification
         then s1\<lparr>unhandled := unhandled s1 @ [(t, rpcNotification)]\<rparr> else s1)"

text \<open>
  \<open>transport.handleRequest\<close> on transport \<open>t\<close>: the generator may be run (the result is the
  transport's \<open>sessionId\<close> afterwards, as far as this call set it), and the call may throw.
\<close>

definition transport_handleRequest ::
  "sdk_env \<Rightarrow> server_state \<Rightarrow> nat \<Rightarrow> request \<Rightarrow> server_state \<times> (js_error + string option)" where
  "transport_handleRequest sdk s t req =
     (let out = handleRequest_outcome sdk t req;
          s1 = (if runs_generator out then s\<lparr>uuids_drawn := Suc (uuids_drawn s)\<rparr> else s);
          sid = (if runs_generator out then Some (randomUUID sdk (uuids_drawn s)) else None)
      in case throws out of Some e \<Rightarrow> (s1, Inl e) | None \<Rightarrow> (s1, Inr sid))"

subsection \<open>The notification streaming engine\<close>

definition streamMessages :: "sdk_env \<Rightarrow> server_state \<Rightarrow> nat \<Rightarrow> server_state" where
  "streamMessages sdk s t =
     (let s1 = sendNotification sdk s t (logging_message ''SSE Connection established'')
      in s1\<lparr>intervals :=
              intervals s1 @ [\<lparr>stream_transport = t, messageCount = 0, cleared = False\<rparr>]\<rparr>)"

definition clearInterval :: "nat \<Rightarrow> server_state \<Rightarrow> server_state" where
  "clearInterval i s = s\<lparr>intervals := (intervals s)[i := (intervals s ! i)\<lparr>cleared := True\<rparr>]\<rparr>"

text \<open>
  The callback of interval \<open>i\<close>, run when \<open>new Date().toISOString()\<close> is \<open>now\<close>. The
  \<open>catch\<close> around the sends is never entered, since \<open>sendNotification\<close> does not throw.
\<close>

definition stream_callback :: "sdk_env \<Rightarrow> string \<Rightarrow> nat \<Rightarrow> server_state \<Rightarrow> server_state" where
  "stream_callback sdk now i s =
     (let timer = intervals s ! i;
          count = Suc (messageCount timer);
          s1 = s\<lparr>intervals := (intervals s)[i := timer\<lparr>messageCount := count\<rparr>]\<rparr>;
          s2 = sendNotification sdk s1 (stream_transport timer)
                 (logging_message (''Message '' @ show_nat count @ '' at '' @ now))
      in if count = 2
         then sendNotification sdk (clearInterval i s2) (stream_transport timer)
                (logging_message ''Streaming complete!'')
         else s2)"

text \<open>One period of interval \<open>i\<close> elapsing: the runtime runs the callback unless the interval was cleared.\<close>

definition interval_elapses :: "sdk_env \<Rightarrow> nat \<Rightarrow> server_state \<Rightarrow> string \<Rightarrow> server_state" where
  "interval_elapses sdk i s now =
     (if i < length (intervals s) \<and> \<not> cleared (intervals s ! i)
      then stream_callback sdk now i s else s)"

text \<open>Periods of interval \<open>i\<close> elapsing one after the other, at the given clock readings.\<close>

definition run_interval :: "sdk_env \<Rightarrow> nat \<Rightarrow> server_state \<Rightarrow> string list \<Rightarrow> server_state" where
  "run_interval sdk i s nows = foldl (interval_elapses sdk i) s nows"

subsection \<open>The tool catalog and its refresh\<close>

definition setToolSchema :: "server_state \<Rightarrow> server_state" where
  "setToolSchema s = s\<lparr>list_tools := Some listToolsHandler\<rparr>"

text \<open>The callback of the interval \<open>setupTools\<close> creates (every 5000 ms).\<close>

definition toolInterval_callback :: "sdk_env \<Rightarrow> server_state \<Rightarrow> server_state" where
  "toolInterval_callback sdk s =
     foldl (\<lambda>acc transport. sendNotification sdk acc transport tool_list_changed)
       (setToolSchema s) (Object_values (transports (setToolSchema s)))"

definition setupTools :: "server_state \<Rightarrow> server_state" where
  "setupTools s = (setToolSchema s)\<lparr>toolInterval := True\<rparr>"

text \<open>\<open>new MCPServer(server)\<close>.\<close>

definition new_MCPServer :: server_state where
  "new_MCPServer =
     setupTools
       \<lparr> transports = [], list_tools = None, toolInterval = False, constructed = 0,
         uuids_drawn = 0, sent = [], unhandled = [], console = [], intervals = [] \<rparr>"

subsection \<open>The request dispatcher\<close>

definition session_header :: "request \<Rightarrow> string option" where
  "session_header req = map_of (headers req) SESSION_ID_HEADER_NAME"

definition bad_request :: "sdk_env \<Rightarrow> server_state \<Rightarrow> server_state \<times> (js_error + http_reply)" where
  "bad_request sdk s =
     (let (s1, envelope) = createErrorResponse sdk s ''Bad Request: invalid session ID or method.''
      in (s1, Inr (Json 400 envelope)))"

definition not_a_function :: js_error where
  "not_a_function = TypeError ''transport.handleRequest is not a function''"

text \<open>
  \<open>handleGetRequest\<close>. \<open>Inl\<close> is an exception leaving the function (its promise rejects);
  the function has no \<open>try\<close>.
\<close>

definition handleGetRequest ::
  "sdk_env \<Rightarrow> server_state \<Rightarrow> request \<Rightarrow> server_state \<times> (js_error + http_reply)" where
  "handleGetRequest sdk s req =
     (case resolve s (session_header req) of
        None \<Rightarrow> bad_request sdk s
      | Some (Inherited k) \<Rightarrow> (s, Inl not_a_function)
      | Some (Transport t) \<Rightarrow>
          (case transport_handleRequest sdk s t req of
             (s1, Inl e) \<Rightarrow> (s1, Inl e)
           | (s1, Inr sid) \<Rightarrow> (streamMessages sdk s1 t, Inr (ByTransport t))))"

text \<open>The \<open>catch\<close> of \<open>handlePostRequest\<close>.\<close>

definition internal_error ::
  "sdk_env \<Rightarrow> server_state \<Rightarrow> js_error \<Rightarrow> server_state \<times> (js_error + http_reply)" where
  "internal_error sdk s e =
     (let s1 = s\<lparr>console := console s @ [(''Error handling MCP request:'', e)]\<rparr>;
          (s2, envelope) = createErrorResponse sdk s1 ''Internal server error.''
      in (s2, Inr (Json 500 envelope)))"

text \<open>The branch of \<open>handlePostRequest\<close> that builds a transport and registers it.\<close>

definition establish ::
  "sdk_env \<Rightarrow> server_state \<Rightarrow> request \<Rightarrow> server_state \<times> (js_error + http_reply)" where
  "establish sdk s req =
     (let transport = constructed s;
          s0 = s\<lparr>constructed := Suc transport\<rparr>
      in case connect_outcome sdk transport of
           Some e \<Rightarrow> internal_error sdk s0 e
         | None \<Rightarrow>
             (case transport_handleRequest sdk s0 transport req of
                (s1, Inl e) \<Rightarrow> internal_error sdk s1 e
              | (s1, Inr sessionId) \<Rightarrow>
                  ((case sessionId of
                      None \<Rightarrow> s1
                    | Some k \<Rightarrow>
                        if k \<noteq> []
                        then s1\<lparr>transports := transports_set k transport (transports s1)\<rparr>
                        else s1),
                   Inr (ByTransport transport))))"

definition handlePostRequest ::
  "sdk_env \<Rightarrow> server_state \<Rightarrow> request \<Rightarrow> server_state \<times> (js_error + http_reply)" where
  "handlePostRequest sdk s req =
     (case resolve s (session_header req) of
        Some (Transport t) \<Rightarrow>
          (case transport_handleRequest sdk s t req of
             (s1, Inl e) \<Rightarrow> internal_error sdk s1 e
           | (s1, Inr sid) \<Rightarrow> (s1, Inr (ByTransport t)))
      | Some (Inherited k) \<Rightarrow> internal_error sdk s not_a_function
      | None \<Rightarrow>
          if (session_header req = None \<or> session_header req = Some [])
             \<and> isInitializeRequest sdk (body req)
          then establish sdk s req
          else bad_request sdk s)"

subsection \<open>What the server goes through\<close>

text \<open>
  The things that happen to a running server: a POST or a GET request arrives, the
  catalog-refresh interval fires, or a period of stream interval \<open>i\<close> elapses while the
  clock reads \<open>now\<close>. \<open>serve\<close> runs a list of them, one after the other.
\<close>

datatype server_event =
    Post request
  | Get request
  | CatalogRefresh
  | StreamPeriod nat string

definition step :: "sdk_env \<Rightarrow> server_state \<Rightarrow> server_event \<Rightarrow> server_state" where
  "step sdk s ev =
     (case ev of
        Post req \<Rightarrow> fst (handlePostRequest sdk s req)
      | Get req \<Rightarrow> fst (handleGetRequest sdk s req)
      | CatalogRefresh \<Rightarrow> toolInterval_callback sdk s
      | StreamPeriod i now \<Rightarrow> interval_elapses sdk i s now)"

definition serve :: "sdk_env \<Rightarrow> server_state \<Rightarrow> server_event list \<Rightarrow> server_state" where
  "serve sdk s evs = foldl (step sdk) s evs"

section \<open>Predicates used in the statements\<close>

text \<open>The calls of \<open>randomUUID()\<close> numbered \<open>m\<close> up to \<open>n - 1\<close> do not return \<open>k\<close>.\<close>

definition not_reissued :: "sdk_env \<Rightarrow> string \<Rightarrow> nat \<Rightarrow> nat \<Rightarrow> bool" where
  "not_reissued sdk k m n = list_all (\<lambda>i. randomUUID sdk i \<noteq> k) [m..<n]"

text \<open>The first \<open>n\<close> values of \<open>randomUUID()\<close> are pairwise different.\<close>

definition no_collision :: "sdk_env \<Rightarrow> nat \<Rightarrow> bool" where
  "no_collision sdk n = distinct (map (randomUUID sdk) [0..<n])"

text \<open>The shape of a value of \<open>randomUUID()\<close>: 36 characters.\<close>

definition uuid_shaped :: "string \<Rightarrow> bool" where
  "uuid_shaped k = (length k = 36)"

text \<open>Every key of the registry is a value \<open>randomUUID()\<close> has returned.\<close>

definition registry_from_source :: "sdk_env \<Rightarrow> server_state \<Rightarrow> bool" where
  "registry_from_source sdk s =
     list_all (\<lambda>k. k \<in> set (map (randomUUID sdk) [0..<uuids_drawn s])) (map fst (transports s))"

text \<open>
  The SDK takes the request as an initialize request on the new transport \<open>t\<close>:
  \<open>server.connect\<close> returns, and \<open>handleRequest\<close> runs the generator and returns.
\<close>

definition accepts :: "sdk_env \<Rightarrow> nat \<Rightarrow> request \<Rightarrow> bool" where
  "accepts sdk t req =
     (connect_outcome sdk t = None \<and> handleRequest_outcome sdk t req = SdkOutcome True None)"

definition stream_message :: "nat \<Rightarrow> string \<Rightarrow> nat \<times> JSONRPCNotification" where
  "stream_message t d =
     (t, JSONRPCNotification ''2.0'' ''notifications/message''
           (JObj [(''level'', JStr ''info''), (''data'', JStr d)]))"

definition list_changed_message :: "nat \<Rightarrow> nat \<times> JSONRPCNotification" where
  "list_changed_message t =
     (t, JSONRPCNotification ''2.0'' ''notifications/tools/list_changed'' JUndefined)"

definition bad_request_envelope :: "string \<Rightarrow> JSONRPCError" where
  "bad_request_envelope i =
     JSONRPCError ''2.0'' (- 32000) ''Bad Request: invalid session ID or method.'' i"

definition internal_error_envelope :: "string \<Rightarrow> JSONRPCError" where
  "internal_error_envelope i = JSONRPCError ''2.0'' (- 32000) ''Internal server error.'' i"

section \<open>Sample inputs\<close>

definition quiet_executor :: executor_env where
  "quiet_executor =
     \<lparr> process_env = (\<lambda>k. None),
       Number_of = (\<lambda>s. None),
       pg_columns =
         (\<lambda>conn t. ([], Some (JsError ''Error'' ''connect ECONNREFUSED 127.0.0.1:5432''))),
       JSON_stringify = (\<lambda>rows. ''[]'') \<rparr>"

text \<open>An executor whose database client throws an error with an empty name and an empty message.\<close>

definition nameless_error_executor :: executor_env where
  "nameless_error_executor = quiet_executor\<lparr>pg_columns := (\<lambda>conn t. ([], Some (JsError [] [])))\<rparr>"

definition complete_arguments :: "jsval \<Rightarrow> jsval" where
  "complete_arguments database_type =
     JObj [(''database_type'', database_type),
           (''connection_info'',
            JObj [(''host'', JStr ''localhost''), (''port'', JNum 5432),
                  (''user'', JStr ''steward''), (''password'', JStr ''secret''),
                  (''database'', JStr ''warehouse'')]),
           (''table_name'', JStr ''users'')]"

definition initialize_body :: jsval where
  "initialize_body =
     JObj [(''jsonrpc'', JStr ''2.0''), (''id'', JNum 1), (''method'', JStr ''initialize'')]"

definition sample_uuids :: "string list" where
  "sample_uuids =
     [''1b9d6bcd-bbfd-4b2d-9b5d-ab8dfbbd4bed'', ''9c5b94b1-35ad-49bb-b118-8e8fc24abf80'',
      ''6ec0bd7f-11c0-43da-975e-2a8ad9ebae0b'']"

text \<open>
  An SDK that takes \<open>initialize_body\<close> as an initialize request, whose transports throw on
  a request without a body, and whose first transport cannot send.
\<close>

definition sample_sdk :: sdk_env where
  "sample_sdk =
     \<lparr> randomUUID = (\<lambda>i. sample_uuids ! (i mod 3)),
       initialize_ok = (\<lambda>v. v = initialize_body),
       connect_outcome = (\<lambda>t. None),
       handleRequest_outcome =
         (\<lambda>t req. if body req = initialize_body then SdkOutcome True None
                   else if body req = JUndefined
                   then SdkOutcome False (Some (Error ''write EPIPE''))
                   else SdkOutcome False None),
       send_rejects = (\<lambda>t m. t = 0) \<rparr>"

text \<open>An SDK like \<open>sample_sdk\<close> whose \<open>randomUUID\<close> returns the same value every time.\<close>

definition colliding_sdk :: sdk_env where
  "colliding_sdk = sample_sdk\<lparr>randomUUID := (\<lambda>i. sample_uuids ! 0)\<rparr>"

definition post_initialize :: request where
  "post_initialize =
     \<lparr> headers = [(''content-type'', ''application/json'')], body = initialize_body \<rparr>"

definition with_session :: "string \<Rightarrow> jsval \<Rightarrow> request" where
  "with_session k b = \<lparr> headers = [(''mcp-session-id'', k)], body = b \<rparr>"

text \<open>
  What a server with one session may go through: a second initialize request, a catalog
  refresh, a GET of the second session and a period of the stream that GET started.
\<close>

definition sample_events :: "server_event list" where
  "sample_events =
     [Post post_initialize, CatalogRefresh,
      Get (with_session ''9c5b94b1-35ad-49bb-b118-8e8fc24abf80'' JNull),
      StreamPeriod 0 ''2025-01-01T00:00:01.000Z'']"

text \<open>The server after one and after two initialize requests.\<close>

definition one_session :: server_state where
  "one_session = fst (handlePostRequest sample_sdk new_MCPServer post_initialize)"

definition two_sessions :: server_state where
  "two_sessions = fst (handlePostRequest sample_sdk one_session post_initialize)"

section \<open>Facts about the model\<close>

lemmas sample_defs =
  sample_sdk_def sample_uuids_def post_initialize_def initialize_body_def with_session_def
  colliding_sdk_def quiet_executor_def

lemmas dispatcher_defs =
  handlePostRequest_def handleGetRequest_def establish_def resolve_def session_header_def
  SESSION_ID_HEADER_NAME_def transports_get_def transports_set_def transport_handleRequest_def
  isInitializeRequest_def bad_request_def internal_error_def createErrorResponse_def
  Object_prototype_keys_def not_a_function_def bad_request_envelope_def
  internal_error_envelope_def

lemmas executor_defs =
  callToolHandler_def handleGetDDLTool_def getDDLToolName_def missing_parameters_text_def
  unsupported_text_def incomplete_text_def toLowerCase_def lower_char_def Error_def
  TypeError_def

lemma new_MCPServer_fields:
  "transports new_MCPServer = []" "constructed new_MCPServer = 0"
  "uuids_drawn new_MCPServer = 0" "sent new_MCPServer = []" "unhandled new_MCPServer = []"
  "intervals new_MCPServer = []" "console new_MCPServer = []"
  "list_tools new_MCPServer = Some listToolsHandler"
  by (simp_all add: new_MCPServer_def setupTools_def setToolSchema_def)

lemma one_session_eq:
  "one_session =
     new_MCPServer\<lparr>constructed := 1, uuids_drawn := 1,
       transports := [(''1b9d6bcd-bbfd-4b2d-9b5d-ab8dfbbd4bed'', 0)]\<rparr>"
  by (simp add: one_session_def dispatcher_defs sample_defs Let_def new_MCPServer_def
      setupTools_def setToolSchema_def)

lemma two_sessions_eq:
  "two_sessions =
     new_MCPServer\<lparr>constructed := 2, uuids_drawn := 2,
       transports := [(''1b9d6bcd-bbfd-4b2d-9b5d-ab8dfbbd4bed'', 0),
                      (''9c5b94b1-35ad-49bb-b118-8e8fc24abf80'', 1)]\<rparr>"
  by (simp add: two_sessions_def one_session_eq dispatcher_defs sample_defs Let_def
      new_MCPServer_def setupTools_def setToolSchema_def)

subsection \<open>Sending\<close>

lemma sent_sendNotification [simp]:
  "sent (sendNotification sdk s t n) =
     sent s @ [(t, JSONRPCNotification JSON_RPC (note_method n) (note_params n))]"
  by (simp add: sendNotification_def Let_def)

lemma unhandled_sendNotification [simp]:
  "unhandled (sendNotification sdk s t n) =
     unhandled s @
     (if send_rejects sdk t (JSONRPCNotification JSON_RPC (note_method n) (note_params n))
      then [(t, JSONRPCNotification JSON_RPC (note_method n) (note_params n))] else [])"
  by (simp add: sendNotification_def Let_def)

lemma intervals_sendNotification [simp]:
  "intervals (sendNotification sdk s t n) = intervals s"
  by (simp add: sendNotification_def Let_def)

lemma transports_sendNotification [simp]:
  "transports (sendNotification sdk s t n) = transports s"
  by (simp add: sendNotification_def Let_def)

lemma list_tools_sendNotification [simp]:
  "list_tools (sendNotification sdk s t n) = list_tools s"
  by (simp add: sendNotification_def Let_def)

text \<open>A loop of sends over a list of transports makes every call, whatever rejects.\<close>

lemma sent_broadcast:
  "sent (foldl (\<lambda>acc transport. sendNotification sdk acc transport n) s ts) =
     sent s @ map (\<lambda>t. (t, JSONRPCNotification JSON_RPC (note_method n) (note_params n))) ts"
  by (induction ts arbitrary: s) simp_all

lemma unhandled_broadcast:
  "unhandled (foldl (\<lambda>acc transport. sendNotification sdk acc transport n) s ts) =
     unhandled s @
     filter (\<lambda>(t, m). send_rejects sdk t m)
       (map (\<lambda>t. (t, JSONRPCNotification JSON_RPC (note_method n) (note_params n))) ts)"
  by (induction ts arbitrary: s) simp_all

lemma transports_broadcast:
  "transports (foldl (\<lambda>acc transport. sendNotification sdk acc transport n) s ts) = transports s"
  by (induction ts arbitrary: s) simp_all

lemma list_tools_broadcast:
  "list_tools (foldl (\<lambda>acc transport. sendNotification sdk acc transport n) s ts) = list_tools s"
  by (induction ts arbitrary: s) simp_all

subsection \<open>The stream timer\<close>

lemma show_nat_1: "show_nat (Suc 0) = ''1''"
  by code_simp

lemma show_nat_2: "show_nat (Suc (Suc 0)) = ''2''"
  by code_simp

lemma cleared_elapses:
  "i < length (intervals s) \<Longrightarrow> cleared (intervals s ! i) \<Longrightarrow> interval_elapses sdk i s now = s"
  by (simp add: interval_elapses_def)

lemma cleared_run:
  "i < length (intervals s) \<Longrightarrow> cleared (intervals s ! i) \<Longrightarrow> run_interval sdk i s nows = s"
  by (induction nows) (simp_all add: run_interval_def cleared_elapses)

text \<open>The stream's first period sends the first numbered message and leaves the timer running.\<close>

lemma one_period:
  "sent (interval_elapses sdk (length (intervals s)) (streamMessages sdk s t) a) =
     sent s @ map (stream_message t) [''SSE Connection established'', ''Message 1 at '' @ a]
   \<and> \<not> cleared (intervals (interval_elapses sdk (length (intervals s)) (streamMessages sdk s t) a)
                 ! length (intervals s))"
  by (simp add: streamMessages_def interval_elapses_def stream_callback_def Let_def
      logging_message_def stream_message_def JSON_RPC_def show_nat_1 nth_append)

lemma two_periods:
  "let i = length (intervals s);
       s2 = interval_elapses sdk i (interval_elapses sdk i (streamMessages sdk s t) a) b
   in sent s2 =
        sent s @ map (stream_message t)
          [''SSE Connection established'', ''Message 1 at '' @ a, ''Message 2 at '' @ b,
           ''Streaming complete!'']
      \<and> i < length (intervals s2) \<and> cleared (intervals s2 ! i)"
  by (simp add: streamMessages_def interval_elapses_def stream_callback_def clearInterval_def
      Let_def logging_message_def stream_message_def JSON_RPC_def show_nat_1 show_nat_2
      nth_append)

subsection \<open>The registry\<close>

lemma transports_get_own: "map_of r k = Some t \<Longrightarrow> transports_get r k = Some (Transport t)"
  by (simp add: transports_get_def)

lemma map_of_transports_set: "map_of (transports_set k t r) = (map_of r)(k \<mapsto> t)"
  by (simp add: transports_set_def update_conv')

lemma distinct_transports_set:
  "distinct (map fst r) \<Longrightarrow> distinct (map fst (transports_set k t r))"
  by (simp add: transports_set_def distinct_update)

lemma uuid_shaped_nonempty: "uuid_shaped k \<Longrightarrow> k \<noteq> []"
  by (auto simp: uuid_shaped_def)

lemma no_collision_mono: "no_collision sdk n \<Longrightarrow> m \<le> n \<Longrightarrow> no_collision sdk m"
  unfolding no_collision_def distinct_map by (auto intro: inj_on_subset)

lemma fresh_uuid:
  assumes "no_collision sdk (Suc n)"
    and "list_all (\<lambda>k. k \<in> set (map (randomUUID sdk) [0..<n])) ks"
  shows "randomUUID sdk n \<notin> set ks"
proof
  assume "randomUUID sdk n \<in> set ks"
  with assms(2) obtain j where j: "j < n" "randomUUID sdk j = randomUUID sdk n"
    by (auto simp: list_all_iff)
  from assms(1) have "inj_on (randomUUID sdk) (set [0..<Suc n])"
    unfolding no_collision_def by (simp only: distinct_map)
  with j show False by (auto simp: inj_on_def)
qed

subsection \<open>The dispatcher\<close>

lemma establish_accepted:
  assumes "accepts sdk (constructed s) req" and "randomUUID sdk (uuids_drawn s) \<noteq> []"
  shows "establish sdk s req =
     (s\<lparr>constructed := Suc (constructed s), uuids_drawn := Suc (uuids_drawn s),
        transports :=
          transports_set (randomUUID sdk (uuids_drawn s)) (constructed s) (transports s)\<rparr>,
      Inr (ByTransport (constructed s)))"
  using assms by (simp add: establish_def accepts_def transport_handleRequest_def Let_def)

lemma post_establishes:
  assumes "session_header req = None \<or> session_header req = Some []"
    and "isInitializeRequest sdk (body req)"
  shows "handlePostRequest sdk s req = establish sdk s req"
  using assms by (auto simp: handlePostRequest_def resolve_def)

lemma post_continues:
  assumes "session_header req = Some k" "k \<noteq> []" "map_of (transports s) k = Some t"
    and "throws (handleRequest_outcome sdk t req) = None"
  shows "snd (handlePostRequest sdk s req) = Inr (ByTransport t)"
  using assms
  by (simp add: handlePostRequest_def resolve_def transports_get_def
      transport_handleRequest_def Let_def)

text \<open>The \<open>catch\<close> of \<open>handlePostRequest\<close> answers; nothing is thrown out of the function.\<close>

lemma internal_error_replies:
  "snd (internal_error sdk s e) = Inr (Json 500 (internal_error_envelope (randomUUID sdk (uuids_drawn s))))"
  by (simp add: internal_error_def createErrorResponse_def internal_error_envelope_def Let_def)

lemma bad_request_replies:
  "bad_request sdk s =
     (s\<lparr>uuids_drawn := Suc (uuids_drawn s)\<rparr>,
      Inr (Json 400 (bad_request_envelope (randomUUID sdk (uuids_drawn s)))))"
  by (simp add: bad_request_def createErrorResponse_def bad_request_envelope_def)

lemma establish_never_throws: "\<exists>r. snd (establish sdk s req) = Inr r"
  by (simp add: establish_def internal_error_replies Let_def split: option.split prod.split sum.split)

lemma handlePostRequest_never_throws: "\<exists>r. snd (handlePostRequest sdk s req) = Inr r"
  using establish_never_throws [of sdk s req]
  by (simp add: handlePostRequest_def internal_error_replies bad_request_replies
      split: option.split registry_value.split prod.split sum.split)

lemma post_exception_is_caught:
  assumes "session_header req = Some k" "k \<noteq> []" "map_of (transports s) k = Some t"
    and "handleRequest_outcome sdk t req = SdkOutcome False (Some e)"
  shows "handlePostRequest sdk s req =
     (s\<lparr>console := console s @ [(''Error handling MCP request:'', e)],
        uuids_drawn := Suc (uuids_drawn s)\<rparr>,
      Inr (Json 500 (internal_error_envelope (randomUUID sdk (uuids_drawn s)))))"
  using assms
  by (simp add: handlePostRequest_def resolve_def transports_get_def
      transport_handleRequest_def internal_error_def createErrorResponse_def
      internal_error_envelope_def Let_def)

text \<open>The registry keeps its keys distinct.\<close>

lemma transports_internal_error [simp]:
  "transports (fst (internal_error sdk s e)) = transports s"
  by (simp add: internal_error_def createErrorResponse_def Let_def)

lemma transports_transport_handleRequest [simp]:
  "transports (fst (transport_handleRequest sdk s t req)) = transports s"
  by (simp add: transport_handleRequest_def Let_def split: option.split)

lemma handlePostRequest_keeps_distinct:
  assumes "distinct (map fst (transports s))"
  shows "distinct (map fst (transports (fst (handlePostRequest sdk s req))))"
proof -
  have e: "distinct (map fst (transports (fst (establish sdk s req))))"
    using assms
    by (auto simp: establish_def transport_handleRequest_def Let_def distinct_transports_set
        internal_error_def createErrorResponse_def split: option.split)
  show ?thesis
    using assms e
    by (auto simp: handlePostRequest_def bad_request_replies transport_handleRequest_def Let_def
        internal_error_def createErrorResponse_def
        split: option.split registry_value.split)
qed

subsection \<open>The executor\<close>

lemma toLowerCase_samples:
  "toLowerCase ''mysql'' = ''mysql''" "toLowerCase ''PostgreSQL'' = ''postgresql''"
  "toLowerCase ''postgres'' = ''postgres''"
  by code_simp+

text \<open>
  With a string for \<open>database_type\<close>, each of the three failures the executor tests for
  has its text, provided the error's text is not empty.
\<close>

lemma string_type_failures_are_results:
  assumes "js_get args ''database_type'' = JStr d" and "d \<noteq> []"
    and "truthy (js_get args ''connection_info'')" and "truthy (js_get args ''table_name'')"
  shows "(toLowerCase d \<noteq> ''postgresql'' \<and> toLowerCase d \<noteq> ''postgres''
            \<longrightarrow> callToolHandler ex args getDDLToolName = Inr [Text (unsupported_text d)])
    \<and> ((toLowerCase d = ''postgresql'' \<or> toLowerCase d = ''postgres'')
         \<and> conn_incomplete (make_conn ex (js_get args ''connection_info''))
            \<longrightarrow> callToolHandler ex args getDDLToolName = Inr [Text incomplete_text])
    \<and> ((toLowerCase d = ''postgresql'' \<or> toLowerCase d = ''postgres'')
         \<and> \<not> conn_incomplete (make_conn ex (js_get args ''connection_info''))
         \<and> snd (pg_columns ex (make_conn ex (js_get args ''connection_info''))
                    (js_get args ''table_name'')) = Some e
         \<and> ddl_error_of e \<noteq> []
            \<longrightarrow> callToolHandler ex args getDDLToolName =
                  Inr [Text (''Failed to retrieve DDL: '' @ ddl_error_of e)])"
proof -
  have args: "truthy args" "args \<noteq> JUndefined" "args \<noteq> JNull"
    using assms(1) by (cases args; simp)+
  show ?thesis
    using assms args
    by (auto simp: callToolHandler_def handleGetDDLTool_def getDDLToolName_def Let_def
        split: prod.split option.split)
qed

lemma mysql_is_unsupported:
  "callToolHandler quiet_executor
     (JObj [(''database_type'', JStr ''mysql''), (''connection_info'', JObj []),
            (''table_name'', JStr ''users'')])
     ''get_database_table_ddl'' =
   Inr [Text ''Unsupported database type: mysql. Only PostgreSQL is supported.'']"
  by (simp add: executor_defs)

lemma refused_connection_is_reported:
  "callToolHandler quiet_executor (complete_arguments (JStr ''PostgreSQL''))
     ''get_database_table_ddl'' =
   Inr [Text ''Failed to retrieve DDL: connect ECONNREFUSED 127.0.0.1:5432'']"
  by (simp add: callToolHandler_def handleGetDDLTool_def getDDLToolName_def
      complete_arguments_def toLowerCase_samples conn_incomplete_def make_conn_def js_or_def
      quiet_executor_def ddl_error_of_def Let_def)

text \<open>
  An error whose message and name are both empty leaves \<open>ddlError\<close> empty: the handler goes
  on as if the query had returned no rows.
\<close>

lemma empty_error_text_is_swallowed:
  "callToolHandler nameless_error_executor (complete_arguments (JStr ''postgres''))
     ''get_database_table_ddl'' =
   Inr [Text (''DDL (columns):'' @ newline @ ''[]''),
        Text (''Data Dictionary:'' @ newline @ ''Table '' @ dquote @ ''users'' @ dquote
              @ '' columns:'' @ newline @ ''No columns found.'')]"
  by (simp add: callToolHandler_def handleGetDDLTool_def getDDLToolName_def
      complete_arguments_def toLowerCase_samples conn_incomplete_def make_conn_def js_or_def
      quiet_executor_def nameless_error_executor_def ddl_error_of_def error_to_string_def
      data_dictionary_def Let_def)

subsection \<open>Requests that resolve and requests that do not\<close>

text \<open>A request that resolves to nothing is answered with status 400 and the Bad Request envelope.\<close>

lemma unresolved_is_bad_request:
  assumes "resolve s (session_header req) = None"
  shows "snd (handleGetRequest sdk s req) =
       Inr (Json 400 (bad_request_envelope (randomUUID sdk (uuids_drawn s))))"
    and "\<not> isInitializeRequest sdk (body req) \<Longrightarrow>
       snd (handlePostRequest sdk s req) =
       Inr (Json 400 (bad_request_envelope (randomUUID sdk (uuids_drawn s))))"
  using assms by (simp_all add: handleGetRequest_def handlePostRequest_def bad_request_replies)

lemma get_continues:
  assumes "session_header req = Some k" "k \<noteq> []" "map_of (transports s) k = Some t"
    and "throws (handleRequest_outcome sdk t req) = None"
  shows "snd (handleGetRequest sdk s req) = Inr (ByTransport t)"
  using assms
  by (simp add: handleGetRequest_def resolve_def transports_get_def
      transport_handleRequest_def Let_def)

text \<open>
  Every key of the registry is a value \<open>randomUUID\<close> has returned: this holds for a new
  server and both entry points keep it.
\<close>

lemma registry_from_source_new: "registry_from_source sdk new_MCPServer"
  by (simp add: registry_from_source_def new_MCPServer_fields)

lemma registry_from_source_drawn:
  "registry_from_source sdk s \<Longrightarrow> transports s' = transports s \<Longrightarrow>
     uuids_drawn s \<le> uuids_drawn s' \<Longrightarrow> registry_from_source sdk s'"
  by (auto simp: registry_from_source_def list_all_iff)

lemma registry_from_source_establish:
  assumes "registry_from_source sdk s"
  shows "registry_from_source sdk (fst (establish sdk s req))"
proof -
  have set: "registry_from_source sdk
      (s\<lparr>constructed := c, uuids_drawn := Suc (uuids_drawn s),
          transports := transports_set (randomUUID sdk (uuids_drawn s)) t (transports s)\<rparr>)"
    for c t
    using assms
    by (auto simp: registry_from_source_def list_all_iff transports_set_def update_keys
        less_Suc_eq)
  show ?thesis
    using assms set
    by (auto simp: establish_def transport_handleRequest_def internal_error_def
        createErrorResponse_def Let_def
        intro: registry_from_source_drawn split: option.split)
qed

lemma registry_from_source_kept:
  assumes "registry_from_source sdk s"
  shows "registry_from_source sdk (fst (handlePostRequest sdk s req))"
    and "registry_from_source sdk (fst (handleGetRequest sdk s req))"
  using assms registry_from_source_establish [OF assms, of req]
  by (auto simp: handlePostRequest_def handleGetRequest_def bad_request_replies
      transport_handleRequest_def internal_error_def createErrorResponse_def
      streamMessages_def sendNotification_def Let_def
      intro: registry_from_source_drawn split: option.split registry_value.split)


text \<open>No entry point removes a key of the registry.\<close>

lemma keys_transports_set: "fst ` set (transports_set k t r) = insert k (fst ` set r)"
proof -
  have "set (map fst (AList.update k t r)) = insert k (set (map fst r))"
    by (simp only: update_keys) auto
  then show ?thesis
    by (simp add: transports_set_def)
qed

lemma registry_keys_kept:
  "set (map fst (transports s)) \<subseteq> set (map fst (transports (fst (handlePostRequest sdk s req))))"
  "set (map fst (transports s)) \<subseteq> set (map fst (transports (fst (handleGetRequest sdk s req))))"
  by (auto simp: handlePostRequest_def handleGetRequest_def establish_def bad_request_replies
      transport_handleRequest_def internal_error_def createErrorResponse_def
      streamMessages_def sendNotification_def keys_transports_set Let_def
      split: option.split registry_value.split)

subsection \<open>A registration stays\<close>

lemma not_reissued_iff:
  "not_reissued sdk k m n \<longleftrightarrow> (\<forall>i. m \<le> i \<and> i < n \<longrightarrow> randomUUID sdk i \<noteq> k)"
  by (auto simp: not_reissued_def list_all_iff)

lemma not_reissued_part:
  "not_reissued sdk k m n \<Longrightarrow> m \<le> m' \<Longrightarrow> n' \<le> n \<Longrightarrow> not_reissued sdk k m' n'"
  by (auto simp: not_reissued_iff)

text \<open>
  Establish leaves the registry as it was, or draws one identifier and registers the new
  transport under it.
\<close>

lemma establish_effect:
  "(transports (fst (establish sdk s req)) = transports s
      \<and> uuids_drawn s \<le> uuids_drawn (fst (establish sdk s req)))
   \<or> (transports (fst (establish sdk s req)) =
        transports_set (randomUUID sdk (uuids_drawn s)) (constructed s) (transports s)
      \<and> uuids_drawn (fst (establish sdk s req)) = Suc (uuids_drawn s))"
  by (simp add: establish_def transport_handleRequest_def internal_error_def
      createErrorResponse_def Let_def split: option.split)

lemma handlePostRequest_effect:
  "(transports (fst (handlePostRequest sdk s req)) = transports s
      \<and> uuids_drawn s \<le> uuids_drawn (fst (handlePostRequest sdk s req)))
   \<or> (transports (fst (handlePostRequest sdk s req)) =
        transports_set (randomUUID sdk (uuids_drawn s)) (constructed s) (transports s)
      \<and> uuids_drawn (fst (handlePostRequest sdk s req)) = Suc (uuids_drawn s))"
proof (cases "handlePostRequest sdk s req = establish sdk s req")
  case True
  then show ?thesis
    using establish_effect [of sdk s req] by simp
next
  case False
  then show ?thesis
    by (auto simp: handlePostRequest_def bad_request_replies transport_handleRequest_def
        internal_error_def createErrorResponse_def Let_def
        split: option.split_asm registry_value.split_asm if_split_asm)
qed

lemma handleGetRequest_effect:
  "transports (fst (handleGetRequest sdk s req)) = transports s
   \<and> uuids_drawn s \<le> uuids_drawn (fst (handleGetRequest sdk s req))"
  by (simp add: handleGetRequest_def bad_request_replies transport_handleRequest_def
      streamMessages_def sendNotification_def Let_def
      split: option.split registry_value.split)

lemma uuids_drawn_sendNotification [simp]:
  "uuids_drawn (sendNotification sdk s t n) = uuids_drawn s"
  by (simp add: sendNotification_def Let_def)

lemma uuids_drawn_broadcast:
  "uuids_drawn (foldl (\<lambda>acc transport. sendNotification sdk acc transport n) s ts) =
     uuids_drawn s"
  by (induction ts arbitrary: s) simp_all

lemma timers_effect:
  "transports (toolInterval_callback sdk s) = transports s"
  "uuids_drawn (toolInterval_callback sdk s) = uuids_drawn s"
  "transports (interval_elapses sdk i s now) = transports s"
  "uuids_drawn (interval_elapses sdk i s now) = uuids_drawn s"
  by (simp_all add: toolInterval_callback_def transports_broadcast uuids_drawn_broadcast
      setToolSchema_def interval_elapses_def stream_callback_def clearInterval_def Let_def)

lemma step_effect:
  "(transports (step sdk s ev) = transports s \<and> uuids_drawn s \<le> uuids_drawn (step sdk s ev))
   \<or> (transports (step sdk s ev) =
        transports_set (randomUUID sdk (uuids_drawn s)) (constructed s) (transports s)
      \<and> uuids_drawn (step sdk s ev) = Suc (uuids_drawn s))"
  using handlePostRequest_effect [of sdk s] handleGetRequest_effect [of sdk s]
  by (cases ev) (simp_all add: step_def timers_effect)

lemma uuids_drawn_step: "uuids_drawn s \<le> uuids_drawn (step sdk s ev)"
  using step_effect [of sdk s ev] by auto

lemma uuids_drawn_serve: "uuids_drawn s \<le> uuids_drawn (serve sdk s evs)"
proof (induction evs arbitrary: s)
  case Nil
  then show ?case by (simp add: serve_def)
next
  case (Cons ev evs)
  have "uuids_drawn s \<le> uuids_drawn (step sdk s ev)"
    by (rule uuids_drawn_step)
  also have "\<dots> \<le> uuids_drawn (serve sdk (step sdk s ev) evs)"
    by (rule Cons.IH)
  finally show ?case by (simp add: serve_def)
qed

lemma step_keeps_registration:
  assumes "map_of (transports s) k = Some t"
    and "not_reissued sdk k (uuids_drawn s) (uuids_drawn (step sdk s ev))"
  shows "map_of (transports (step sdk s ev)) k = Some t"
  using step_effect [of sdk s ev]
proof
  assume "transports (step sdk s ev) = transports s
    \<and> uuids_drawn s \<le> uuids_drawn (step sdk s ev)"
  then show ?thesis using assms(1) by simp
next
  assume e: "transports (step sdk s ev) =
      transports_set (randomUUID sdk (uuids_drawn s)) (constructed s) (transports s)
    \<and> uuids_drawn (step sdk s ev) = Suc (uuids_drawn s)"
  then have "randomUUID sdk (uuids_drawn s) \<noteq> k"
    using assms(2) by (simp add: not_reissued_iff)
  then show ?thesis
    using e assms(1) by (simp add: map_of_transports_set)
qed

text \<open>
  Whatever the server goes through, an identifier stays registered for its transport as
  long as \<open>randomUUID\<close> does not return it again.
\<close>

lemma serve_keeps_registration:
  assumes "map_of (transports s) k = Some t"
    and "not_reissued sdk k (uuids_drawn s) (uuids_drawn (serve sdk s evs))"
  shows "map_of (transports (serve sdk s evs)) k = Some t"
  using assms
proof (induction evs arbitrary: s)
  case Nil
  then show ?case by (simp add: serve_def)
next
  case (Cons ev evs)
  have final: "serve sdk s (ev # evs) = serve sdk (step sdk s ev) evs"
    by (simp add: serve_def)
  have "not_reissued sdk k (uuids_drawn s) (uuids_drawn (step sdk s ev))"
    using Cons.prems(2) uuids_drawn_serve [of "step sdk s ev" sdk evs]
    by (auto simp: final intro: not_reissued_part)
  with Cons.prems(1) have one: "map_of (transports (step sdk s ev)) k = Some t"
    by (rule step_keeps_registration)
  have "not_reissued sdk k (uuids_drawn (step sdk s ev))
      (uuids_drawn (serve sdk (step sdk s ev) evs))"
    using Cons.prems(2) uuids_drawn_step [of s sdk ev]
    by (auto simp: final intro: not_reissued_part)
  with one show ?case
    unfolding final by (rule Cons.IH)
qed

section \<open>The claims\<close>

text \<open>
  C1. The claim says that a call-tool request naming a tool that is not registered gets a
  successful result saying the tool was not found. The handler does otherwise by design:
  when arguments are present and the name is non-empty and is not the registered name, it
  throws \<open>Error("Tool not found")\<close> and returns no result.
\<close>

theorem C1_unknown_tool_throws:
  assumes "truthy args" and "toolName \<noteq> []" and "toolName \<noteq> getDDLToolName"
  shows "callToolHandler ex args toolName = Inl (Error ''Tool not found'')"
  using assms by (simp add: callToolHandler_def)

theorem C1_unknown_tool_throws_witness:
  "callToolHandler quiet_executor (JObj [(''table_name'', JStr ''users'')]) ''drop_table'' =
     Inl (JsError ''Error'' ''Tool not found'')"
  using C1_unknown_tool_throws
    [where args = "JObj [(''table_name'', JStr ''users'')]" and toolName = "''drop_table''"
       and ex = quiet_executor]
  by (simp add: getDDLToolName_def Error_def)

text \<open>
  C1, the claim as stated fails: for the tool name \<open>list_tables\<close> and the arguments \<open>{}\<close>
  the handler throws; it returns no result.
\<close>

theorem C1_unknown_tool_counterexample:
  "callToolHandler quiet_executor (JObj []) ''list_tables'' =
     Inl (JsError ''Error'' ''Tool not found'')"
  by (simp add: executor_defs)

text \<open>
  C2. The claim says that an exception raised while a request is handled never leaves the
  handler, on GET as on POST. \<open>handlePostRequest\<close> has the \<open>try\<close> that does this
  (\<open>handlePostRequest_never_throws\<close>); \<open>handleGetRequest\<close> has none. When the transport of
  a registered session throws while it handles a GET, the error leaves \<open>handleGetRequest\<close>,
  nothing is logged and no envelope is written.
\<close>

theorem C2_get_exception_escapes:
  assumes "session_header req = Some k" and "k \<noteq> []" and "map_of (transports s) k = Some t"
    and "throws (handleRequest_outcome sdk t req) = Some e"
  shows "snd (handleGetRequest sdk s req) = Inl e
     \<and> console (fst (handleGetRequest sdk s req)) = console s"
  using assms
  by (simp add: handleGetRequest_def resolve_def transports_get_def transport_handleRequest_def
      Let_def)

theorem C2_get_exception_escapes_witness:
  "snd (handleGetRequest sample_sdk one_session
          (with_session ''1b9d6bcd-bbfd-4b2d-9b5d-ab8dfbbd4bed'' JUndefined)) =
     Inl (JsError ''Error'' ''write EPIPE'')
   \<and> console (fst (handleGetRequest sample_sdk one_session
          (with_session ''1b9d6bcd-bbfd-4b2d-9b5d-ab8dfbbd4bed'' JUndefined))) = []"
  using C2_get_exception_escapes
    [where req = "with_session ''1b9d6bcd-bbfd-4b2d-9b5d-ab8dfbbd4bed'' JUndefined"
       and k = "''1b9d6bcd-bbfd-4b2d-9b5d-ab8dfbbd4bed''" and s = one_session and t = 0
       and sdk = sample_sdk and e = "JsError ''Error'' ''write EPIPE''"]
  by (simp add: one_session_eq new_MCPServer_fields session_header_def
      SESSION_ID_HEADER_NAME_def sample_defs Error_def)

text \<open>
  C3. A run of the notification stream on transport \<open>t\<close>, started by \<open>streamMessages\<close> and
  followed by its timer's periods (two or more), makes exactly four sends on \<open>t\<close>, in this
  order: "SSE Connection established", "Message 1 at" and "Message 2 at" with the clock
  readings of the first two periods, "Streaming complete!". The timer is then cleared, and
  whatever number of periods follows, nothing more is sent.
\<close>

theorem C3_stream_sends_four_messages:
  "sent (run_interval sdk (length (intervals s)) (streamMessages sdk s t) (a # b # later)) =
     sent s @ map (stream_message t)
       [''SSE Connection established'', ''Message 1 at '' @ a, ''Message 2 at '' @ b,
        ''Streaming complete!'']
   \<and> cleared (intervals (run_interval sdk (length (intervals s)) (streamMessages sdk s t)
                          (a # b # later)) ! length (intervals s))"
proof -
  let ?i = "length (intervals s)"
  let ?s2 = "interval_elapses sdk ?i (interval_elapses sdk ?i (streamMessages sdk s t) a) b"
  have two: "sent ?s2 =
      sent s @ map (stream_message t)
        [''SSE Connection established'', ''Message 1 at '' @ a, ''Message 2 at '' @ b,
         ''Streaming complete!'']"
    and c: "?i < length (intervals ?s2)" "cleared (intervals ?s2 ! ?i)"
    using two_periods [where sdk = sdk and s = s and t = t and a = a and b = b]
    by (simp_all add: Let_def)
  have "run_interval sdk ?i (streamMessages sdk s t) (a # b # later) =
      run_interval sdk ?i ?s2 later"
    by (simp add: run_interval_def)
  also have "\<dots> = ?s2"
    using c by (rule cleared_run)
  finally show ?thesis
    using two c by simp
qed

theorem C3_stream_sends_four_messages_witness:
  "sent (run_interval sample_sdk 0 (streamMessages sample_sdk one_session 0)
           [''2025-01-01T00:00:01.000Z'', ''2025-01-01T00:00:02.000Z'',
            ''2025-01-01T00:00:03.000Z'', ''2025-01-01T00:00:04.000Z'']) =
     [stream_message 0 ''SSE Connection established'',
      stream_message 0 ''Message 1 at 2025-01-01T00:00:01.000Z'',
      stream_message 0 ''Message 2 at 2025-01-01T00:00:02.000Z'',
      stream_message 0 ''Streaming complete!'']"
  using C3_stream_sends_four_messages
    [where sdk = sample_sdk and s = one_session and t = 0
       and a = "''2025-01-01T00:00:01.000Z''" and b = "''2025-01-01T00:00:02.000Z''"
       and later = "[''2025-01-01T00:00:03.000Z'', ''2025-01-01T00:00:04.000Z'']"]
  by (simp add: one_session_eq new_MCPServer_fields)

text \<open>
  C4. The claim says that Establish always makes an id that was never in the registry and
  that two initialize requests always get two different ids. The id is whatever
  \<open>randomUUID\<close> returns, and the code compares it with nothing. What holds, for an
  initialize request without a session id that the SDK accepts on the new transport:
  Establish answers through the new transport and registers it under the id the generator
  returned; whatever the server goes through afterwards, a POST or GET request carrying
  that id is handed to that transport, as long as \<open>randomUUID\<close> does not return the id
  again; the id was not a key of the registry beforehand, and a second such request gets
  a different id with both ids resolving, each to its own transport, provided
  \<open>randomUUID\<close> returns no value twice.
\<close>

theorem C4_establish_registers_generated_id:
  assumes r1: "session_header req1 = None" "isInitializeRequest sdk (body req1)"
      "accepts sdk (constructed s) req1"
    and shape: "uuid_shaped (randomUUID sdk (uuids_drawn s))"
  shows "snd (handlePostRequest sdk s req1) = Inr (ByTransport (constructed s))
    \<and> transports_get (transports (fst (handlePostRequest sdk s req1)))
          (randomUUID sdk (uuids_drawn s)) = Some (Transport (constructed s))
    \<and> (not_reissued sdk (randomUUID sdk (uuids_drawn s))
            (uuids_drawn (fst (handlePostRequest sdk s req1)))
            (uuids_drawn (serve sdk (fst (handlePostRequest sdk s req1)) evs))
         \<and> session_header req3 = Some (randomUUID sdk (uuids_drawn s))
         \<and> throws (handleRequest_outcome sdk (constructed s) req3) = None
        \<longrightarrow> snd (handlePostRequest sdk (serve sdk (fst (handlePostRequest sdk s req1)) evs) req3)
              = Inr (ByTransport (constructed s))
         \<and> snd (handleGetRequest sdk (serve sdk (fst (handlePostRequest sdk s req1)) evs) req3)
              = Inr (ByTransport (constructed s)))
    \<and> (registry_from_source sdk s \<and> no_collision sdk (Suc (uuids_drawn s))
        \<longrightarrow> randomUUID sdk (uuids_drawn s) \<notin> set (map fst (transports s)))
    \<and> (session_header req2 = None \<and> isInitializeRequest sdk (body req2)
         \<and> accepts sdk (Suc (constructed s)) req2
         \<and> uuid_shaped (randomUUID sdk (uuids_drawn (fst (handlePostRequest sdk s req1))))
         \<and> no_collision sdk (uuids_drawn s + 2)
        \<longrightarrow> snd (handlePostRequest sdk (fst (handlePostRequest sdk s req1)) req2) =
              Inr (ByTransport (Suc (constructed s)))
         \<and> randomUUID sdk (uuids_drawn (fst (handlePostRequest sdk s req1))) \<noteq>
              randomUUID sdk (uuids_drawn s)
         \<and> transports_get
              (transports (fst (handlePostRequest sdk (fst (handlePostRequest sdk s req1)) req2)))
              (randomUUID sdk (uuids_drawn s)) = Some (Transport (constructed s))
         \<and> transports_get
              (transports (fst (handlePostRequest sdk (fst (handlePostRequest sdk s req1)) req2)))
              (randomUUID sdk (uuids_drawn (fst (handlePostRequest sdk s req1)))) =
              Some (Transport (Suc (constructed s))))"
proof -
  let ?n = "uuids_drawn s" and ?t = "constructed s"
  let ?id1 = "randomUUID sdk ?n" and ?id2 = "randomUUID sdk (Suc ?n)"
  let ?s1 = "s\<lparr>constructed := Suc ?t, uuids_drawn := Suc ?n,
        transports := transports_set ?id1 ?t (transports s)\<rparr>"
  let ?s2 = "?s1\<lparr>constructed := Suc (Suc ?t), uuids_drawn := Suc (Suc ?n),
        transports := transports_set ?id2 (Suc ?t) (transports ?s1)\<rparr>"
  have ne1: "?id1 \<noteq> []"
    using shape by (rule uuid_shaped_nonempty)
  have p1: "handlePostRequest sdk s req1 = (?s1, Inr (ByTransport ?t))"
    using r1 ne1 by (simp add: post_establishes establish_accepted)
  have own: "map_of (transports ?s1) ?id1 = Some ?t"
    by (simp add: map_of_transports_set)
  have g1: "transports_get (transports ?s1) ?id1 = Some (Transport ?t)"
    using own by (rule transports_get_own)
  have later: "snd (handlePostRequest sdk (serve sdk ?s1 evs) req3) = Inr (ByTransport ?t)
      \<and> snd (handleGetRequest sdk (serve sdk ?s1 evs) req3) = Inr (ByTransport ?t)"
    if "not_reissued sdk ?id1 (uuids_drawn ?s1) (uuids_drawn (serve sdk ?s1 evs))"
      and "session_header req3 = Some ?id1"
      and "throws (handleRequest_outcome sdk ?t req3) = None"
  proof -
    have "map_of (transports (serve sdk ?s1 evs)) ?id1 = Some ?t"
      using own that(1) by (rule serve_keeps_registration)
    then show ?thesis
      using that(2,3) ne1 post_continues [of req3 ?id1 "serve sdk ?s1 evs" ?t sdk]
        get_continues [of req3 ?id1 "serve sdk ?s1 evs" ?t sdk]
      by simp
  qed
  have fresh: "?id1 \<notin> set (map fst (transports s))"
    if "registry_from_source sdk s" and "no_collision sdk (Suc ?n)"
    using fresh_uuid [of sdk ?n "map fst (transports s)"] that
    by (simp add: registry_from_source_def)
  have second: "snd (handlePostRequest sdk ?s1 req2) = Inr (ByTransport (Suc ?t))
      \<and> ?id2 \<noteq> ?id1
      \<and> transports_get (transports (fst (handlePostRequest sdk ?s1 req2))) ?id1 =
          Some (Transport ?t)
      \<and> transports_get (transports (fst (handlePostRequest sdk ?s1 req2))) ?id2 =
          Some (Transport (Suc ?t))"
    if r2: "session_header req2 = None" "isInitializeRequest sdk (body req2)"
      "accepts sdk (Suc ?t) req2" "uuid_shaped ?id2" and src: "no_collision sdk (?n + 2)"
  proof -
    have p2: "handlePostRequest sdk ?s1 req2 = (?s2, Inr (ByTransport (Suc ?t)))"
      using r2 post_establishes [of req2 sdk ?s1] establish_accepted [of sdk ?s1 req2]
      by (simp add: uuid_shaped_nonempty)
    have "inj_on (randomUUID sdk) (set [0..<?n + 2])"
      using src unfolding no_collision_def by (simp only: distinct_map)
    then have ne: "?id2 \<noteq> ?id1"
      by (auto simp: inj_on_def)
    have "transports_get (transports ?s2) ?id1 = Some (Transport ?t)"
      "transports_get (transports ?s2) ?id2 = Some (Transport (Suc ?t))"
      using ne by (simp_all add: transports_get_own map_of_transports_set)
    then show ?thesis
      using p2 ne by simp
  qed
  show ?thesis
    using later fresh second g1 by (simp add: p1)
qed

theorem C4_establish_registers_generated_id_witness:
  "snd (handlePostRequest sample_sdk new_MCPServer post_initialize) = Inr (ByTransport 0)
   \<and> snd (handlePostRequest sample_sdk (serve sample_sdk one_session sample_events)
            (with_session ''1b9d6bcd-bbfd-4b2d-9b5d-ab8dfbbd4bed'' JNull)) =
       Inr (ByTransport 0)
   \<and> snd (handleGetRequest sample_sdk (serve sample_sdk one_session sample_events)
            (with_session ''1b9d6bcd-bbfd-4b2d-9b5d-ab8dfbbd4bed'' JNull)) =
       Inr (ByTransport 0)
   \<and> ''1b9d6bcd-bbfd-4b2d-9b5d-ab8dfbbd4bed'' \<notin> set (map fst (transports new_MCPServer))
   \<and> snd (handlePostRequest sample_sdk one_session post_initialize) = Inr (ByTransport 1)
   \<and> transports_get (transports two_sessions) ''1b9d6bcd-bbfd-4b2d-9b5d-ab8dfbbd4bed'' =
       Some (Transport 0)
   \<and> transports_get (transports two_sessions) ''9c5b94b1-35ad-49bb-b118-8e8fc24abf80'' =
       Some (Transport 1)"
proof -
  have r: "session_header post_initialize = None"
    "isInitializeRequest sample_sdk (body post_initialize)"
    "accepts sample_sdk (constructed new_MCPServer) post_initialize"
    "accepts sample_sdk (Suc (constructed new_MCPServer)) post_initialize"
    by (simp_all add: session_header_def SESSION_ID_HEADER_NAME_def isInitializeRequest_def
        accepts_def sample_defs)
  have shape: "uuid_shaped (randomUUID sample_sdk (uuids_drawn new_MCPServer))"
    "uuid_shaped (randomUUID sample_sdk (uuids_drawn one_session))"
    by (simp_all add: uuid_shaped_def new_MCPServer_fields one_session_eq sample_defs)
  have src: "no_collision sample_sdk (Suc (uuids_drawn new_MCPServer))"
    "no_collision sample_sdk (uuids_drawn new_MCPServer + 2)"
    by (simp_all add: no_collision_def new_MCPServer_fields sample_defs numeral_2_eq_2)
  have inv: "registry_from_source sample_sdk new_MCPServer"
    by (rule registry_from_source_new)
  have u: "uuids_drawn one_session = 1"
    "randomUUID sample_sdk 0 = ''1b9d6bcd-bbfd-4b2d-9b5d-ab8dfbbd4bed''"
    "randomUUID sample_sdk 1 = ''9c5b94b1-35ad-49bb-b118-8e8fc24abf80''"
    by (simp_all add: one_session_eq sample_defs)
  have drawn: "uuids_drawn (serve sample_sdk one_session sample_events) = 2"
    by (simp add: serve_def step_def sample_events_def one_session_eq timers_effect
        dispatcher_defs streamMessages_def sample_defs Let_def new_MCPServer_fields)
  have later: "not_reissued sample_sdk ''1b9d6bcd-bbfd-4b2d-9b5d-ab8dfbbd4bed'' 1 2"
    by (simp add: not_reissued_def sample_defs numeral_2_eq_2)
  have r3: "session_header (with_session ''1b9d6bcd-bbfd-4b2d-9b5d-ab8dfbbd4bed'' JNull) =
      Some ''1b9d6bcd-bbfd-4b2d-9b5d-ab8dfbbd4bed''"
    "throws (handleRequest_outcome sample_sdk 0
       (with_session ''1b9d6bcd-bbfd-4b2d-9b5d-ab8dfbbd4bed'' JNull)) = None"
    by (simp_all add: session_header_def SESSION_ID_HEADER_NAME_def sample_defs)
  show ?thesis
    using C4_establish_registers_generated_id
      [OF r(1) r(2) r(3) shape(1), where evs = sample_events
         and ?req3.0 = "with_session ''1b9d6bcd-bbfd-4b2d-9b5d-ab8dfbbd4bed'' JNull"
         and ?req2.0 = post_initialize]
      r shape src inv u drawn later r3
    by (simp add: one_session_def [symmetric] two_sessions_def [symmetric]
        new_MCPServer_fields)
qed

text \<open>
  C4, the claim as stated fails: with a \<open>randomUUID\<close> that returns the same value twice,
  two initialize requests without a session id are both answered, the second gets the id
  of the first, which is a key of the registry by then, and a request carrying that id is
  handed to the second transport, not to the first.
\<close>

theorem C4_same_id_twice_counterexample:
  "snd (handlePostRequest colliding_sdk new_MCPServer post_initialize) = Inr (ByTransport 0)
   \<and> snd (handlePostRequest colliding_sdk
            (fst (handlePostRequest colliding_sdk new_MCPServer post_initialize))
            post_initialize) = Inr (ByTransport 1)
   \<and> randomUUID colliding_sdk
        (uuids_drawn (fst (handlePostRequest colliding_sdk new_MCPServer post_initialize))) =
      randomUUID colliding_sdk (uuids_drawn new_MCPServer)
   \<and> randomUUID colliding_sdk
        (uuids_drawn (fst (handlePostRequest colliding_sdk new_MCPServer post_initialize)))
      \<in> set (map fst (transports
            (fst (handlePostRequest colliding_sdk new_MCPServer post_initialize))))
   \<and> snd (handlePostRequest colliding_sdk
            (fst (handlePostRequest colliding_sdk
                    (fst (handlePostRequest colliding_sdk new_MCPServer post_initialize))
                    post_initialize))
            (with_session ''1b9d6bcd-bbfd-4b2d-9b5d-ab8dfbbd4bed'' JNull)) =
       Inr (ByTransport 1)"
  by (simp add: dispatcher_defs sample_defs Let_def new_MCPServer_def setupTools_def
      setToolSchema_def)

text \<open>
  C5. The claim says that a request whose session id resolves to no session gets status
  400 and the Bad Request envelope. It holds for an id that \<open>this.transports[id]\<close> maps
  to nothing (\<open>unresolved_is_bad_request\<close>). An id that names a member inherited from
  \<open>Object.prototype\<close>, such as \<open>constructor\<close>, is no session and yet passes the guard: the
  GET handler then throws a \<open>TypeError\<close> and the POST handler answers 500 with "Internal
  server error.".
\<close>

theorem C5_inherited_name_passes_guard:
  assumes "session_header req = Some k" and "k \<in> set Object_prototype_keys"
    and "map_of (transports s) k = None"
  shows "handleGetRequest sdk s req =
       (s, Inl (TypeError ''transport.handleRequest is not a function''))
     \<and> snd (handlePostRequest sdk s req) =
       Inr (Json 500 (internal_error_envelope (randomUUID sdk (uuids_drawn s))))"
proof -
  have "k \<noteq> []"
    using assms(2) by (auto simp: Object_prototype_keys_def)
  then have "resolve s (session_header req) = Some (Inherited k)"
    using assms by (simp add: resolve_def transports_get_def)
  then show ?thesis
    by (simp add: handleGetRequest_def handlePostRequest_def internal_error_replies
        not_a_function_def)
qed

theorem C5_inherited_name_passes_guard_witness:
  "handleGetRequest sample_sdk new_MCPServer (with_session ''constructor'' JUndefined) =
     (new_MCPServer, Inl (JsError ''TypeError'' ''transport.handleRequest is not a function''))
   \<and> snd (handlePostRequest sample_sdk new_MCPServer (with_session ''constructor'' JNull)) =
     Inr (Json 500 (JSONRPCError ''2.0'' (- 32000) ''Internal server error.''
                     ''1b9d6bcd-bbfd-4b2d-9b5d-ab8dfbbd4bed''))"
  using C5_inherited_name_passes_guard
    [where req = "with_session ''constructor'' JUndefined" and k = "''constructor''"
       and s = new_MCPServer and sdk = sample_sdk]
    C5_inherited_name_passes_guard
    [where req = "with_session ''constructor'' JNull" and k = "''constructor''"
       and s = new_MCPServer and sdk = sample_sdk]
  by (simp add: new_MCPServer_fields session_header_def SESSION_ID_HEADER_NAME_def
      with_session_def Object_prototype_keys_def TypeError_def internal_error_envelope_def
      sample_sdk_def sample_uuids_def)

text \<open>
  C6. The claim says that every failure inside the tool executor comes back from the
  call-tool handler as a text result and never as an error. For a \<open>database_type\<close> that
  is a string the three failures the executor tests for have their texts
  (\<open>string_type_failures_are_results\<close>). But the arguments are not checked against the
  tool's schema, and \<open>database_type.toLowerCase()\<close> stands outside every \<open>try\<close>: a
  \<open>database_type\<close> that is truthy and is not a string, such as the number 123, makes the
  handler throw a \<open>TypeError\<close>.
\<close>

theorem C6_non_string_database_type_throws:
  assumes "truthy (js_get args ''database_type'')"
    and "\<forall>d. js_get args ''database_type'' \<noteq> JStr d"
    and "truthy (js_get args ''connection_info'')" and "truthy (js_get args ''table_name'')"
  shows "callToolHandler ex args getDDLToolName =
     Inl (TypeError ''database_type.toLowerCase is not a function'')"
proof -
  have args: "truthy args" "args \<noteq> JUndefined" "args \<noteq> JNull"
    using assms(1) by (cases args; simp)+
  show ?thesis
    using assms args
    by (cases "js_get args ''database_type''")
       (simp_all add: callToolHandler_def handleGetDDLTool_def getDDLToolName_def Let_def)
qed

theorem C6_non_string_database_type_throws_witness:
  "callToolHandler quiet_executor (complete_arguments (JNum 123)) ''get_database_table_ddl'' =
     Inl (JsError ''TypeError'' ''database_type.toLowerCase is not a function'')"
  using C6_non_string_database_type_throws
    [where args = "complete_arguments (JNum 123)" and ex = quiet_executor]
  by (simp add: complete_arguments_def getDDLToolName_def TypeError_def)

text \<open>
  C7. Each run of the catalog-refresh timer's callback leaves the list-tools answer equal
  to the one-element catalog holding the \<open>get_database_table_ddl\<close> descriptor, and calls
  \<open>send\<close> with the "tool list changed" notification once for each entry of the registry,
  in the registry's order and on no other transport. A send that rejects is left unhandled
  and stops none of the other sends.
\<close>

theorem C7_refresh_notifies_every_session:
  "list_tools (toolInterval_callback sdk s) = Some [getDDLTool]
   \<and> name getDDLTool = ''get_database_table_ddl''
   \<and> sent (toolInterval_callback sdk s) =
       sent s @ map list_changed_message (Object_values (transports s))
   \<and> unhandled (toolInterval_callback sdk s) =
       unhandled s @ filter (\<lambda>(t, m). send_rejects sdk t m)
                       (map list_changed_message (Object_values (transports s)))
   \<and> transports (toolInterval_callback sdk s) = transports s"
  by (simp add: toolInterval_callback_def sent_broadcast unhandled_broadcast
      transports_broadcast list_tools_broadcast setToolSchema_def listToolsHandler_def
      getDDLTool_def getDDLToolName_def tool_list_changed_def JSON_RPC_def
      list_changed_message_def cong: map_cong)

theorem C7_refresh_notifies_every_session_witness:
  "list_tools (toolInterval_callback sample_sdk two_sessions) = Some [getDDLTool]
   \<and> sent (toolInterval_callback sample_sdk two_sessions) =
       [list_changed_message 0, list_changed_message 1]
   \<and> unhandled (toolInterval_callback sample_sdk two_sessions) = [list_changed_message 0]"
  using C7_refresh_notifies_every_session [where sdk = sample_sdk and s = two_sessions]
  by (simp add: two_sessions_eq new_MCPServer_fields Object_values_def sample_sdk_def
      list_changed_message_def)

text \<open>
  C8. The claim says that a second registration under an id that is already present is
  rejected. The registry is a map, so an id has at most one channel and the keys stay
  distinct; but nothing is rejected. Whenever Establish gets an id from the transport,
  present in the registry or not, the request succeeds and the id maps to the new
  channel afterwards, every other id keeping its channel. An id is not used again as
  long as \<open>randomUUID\<close> does not repeat a value: the keys of the registry are values
  \<open>randomUUID\<close> has returned and stay so, and a value it has not returned before is no
  key of the registry.
\<close>

theorem C8_registration_replaces:
  assumes "session_header req = None" and "isInitializeRequest sdk (body req)"
    and "accepts sdk (constructed s) req"
    and "uuid_shaped (randomUUID sdk (uuids_drawn s))"
  shows "snd (handlePostRequest sdk s req) = Inr (ByTransport (constructed s))
    \<and> map_of (transports (fst (handlePostRequest sdk s req))) =
        (map_of (transports s))(randomUUID sdk (uuids_drawn s) \<mapsto> constructed s)
    \<and> (distinct (map fst (transports s)) \<longrightarrow>
        distinct (map fst (transports (fst (handlePostRequest sdk s req)))))
    \<and> (registry_from_source sdk s \<longrightarrow>
        registry_from_source sdk (fst (handlePostRequest sdk s req)))
    \<and> (registry_from_source sdk s \<and> no_collision sdk (Suc (uuids_drawn s)) \<longrightarrow>
        randomUUID sdk (uuids_drawn s) \<notin> set (map fst (transports s)))"
proof -
  have fresh: "randomUUID sdk (uuids_drawn s) \<notin> set (map fst (transports s))"
    if "registry_from_source sdk s" and "no_collision sdk (Suc (uuids_drawn s))"
    using fresh_uuid [of sdk "uuids_drawn s" "map fst (transports s)"] that
    by (simp add: registry_from_source_def)
  show ?thesis
    using assms handlePostRequest_keeps_distinct [of s sdk req]
      registry_from_source_kept(1) [of sdk s req] fresh
    by (simp add: post_establishes establish_accepted uuid_shaped_nonempty
        map_of_transports_set)
qed

theorem C8_registration_replaces_witness:
  "map_of (transports one_session) ''1b9d6bcd-bbfd-4b2d-9b5d-ab8dfbbd4bed'' = Some 0
   \<and> snd (handlePostRequest colliding_sdk one_session post_initialize) = Inr (ByTransport 1)
   \<and> map_of (transports (fst (handlePostRequest colliding_sdk one_session post_initialize)))
        ''1b9d6bcd-bbfd-4b2d-9b5d-ab8dfbbd4bed'' = Some 1
   \<and> ''9c5b94b1-35ad-49bb-b118-8e8fc24abf80'' \<notin> set (map fst (transports one_session))
   \<and> registry_from_source sample_sdk two_sessions"
proof -
  have h: "session_header post_initialize = None"
    "isInitializeRequest colliding_sdk (body post_initialize)"
    "accepts colliding_sdk (constructed one_session) post_initialize"
    "uuid_shaped (randomUUID colliding_sdk (uuids_drawn one_session))"
    by (simp_all add: session_header_def SESSION_ID_HEADER_NAME_def isInitializeRequest_def
        accepts_def uuid_shaped_def sample_defs)
  have h': "isInitializeRequest sample_sdk (body post_initialize)"
    "accepts sample_sdk (constructed one_session) post_initialize"
    "uuid_shaped (randomUUID sample_sdk (uuids_drawn one_session))"
    by (simp_all add: isInitializeRequest_def accepts_def uuid_shaped_def one_session_eq
        sample_defs)
  have u: "randomUUID colliding_sdk (uuids_drawn one_session) =
      ''1b9d6bcd-bbfd-4b2d-9b5d-ab8dfbbd4bed''" "constructed one_session = 1"
    "randomUUID sample_sdk (uuids_drawn one_session) =
      ''9c5b94b1-35ad-49bb-b118-8e8fc24abf80''"
    by (simp_all add: one_session_eq sample_defs)
  have inv: "registry_from_source sample_sdk one_session"
    unfolding one_session_def
    using registry_from_source_new by (rule registry_from_source_kept(1))
  have src: "no_collision sample_sdk (Suc (uuids_drawn one_session))"
    by (simp add: no_collision_def one_session_eq sample_defs numeral_2_eq_2)
  have was: "map_of (transports one_session) ''1b9d6bcd-bbfd-4b2d-9b5d-ab8dfbbd4bed'' = Some 0"
    by (simp add: one_session_eq)
  have answered:
    "snd (handlePostRequest colliding_sdk one_session post_initialize) = Inr (ByTransport 1)"
    using C8_registration_replaces [OF h] u(2) by simp
  have replaced:
    "map_of (transports (fst (handlePostRequest colliding_sdk one_session post_initialize)))
       ''1b9d6bcd-bbfd-4b2d-9b5d-ab8dfbbd4bed'' = Some 1"
    using C8_registration_replaces [OF h] u(1,2) by simp
  have fresh: "''9c5b94b1-35ad-49bb-b118-8e8fc24abf80'' \<notin> set (map fst (transports one_session))"
    using C8_registration_replaces [OF h(1) h'] inv src u(3) by simp
  have kept: "registry_from_source sample_sdk two_sessions"
    using C8_registration_replaces [OF h(1) h'] inv by (simp add: two_sessions_def)
  show ?thesis
    using was answered replaced fresh kept by blast
qed

text \<open>
  C8, the claim as stated fails: with a \<open>randomUUID\<close> that returns the same value twice,
  the second initialize request is answered through its new transport 1, and the id that
  was registered for transport 0 is registered for transport 1 afterwards.
\<close>

theorem C8_second_registration_counterexample:
  "transports (fst (handlePostRequest colliding_sdk new_MCPServer post_initialize)) =
     [(''1b9d6bcd-bbfd-4b2d-9b5d-ab8dfbbd4bed'', 0)]
   \<and> snd (handlePostRequest colliding_sdk
            (fst (handlePostRequest colliding_sdk new_MCPServer post_initialize))
            post_initialize) = Inr (ByTransport 1)
   \<and> transports (fst (handlePostRequest colliding_sdk
            (fst (handlePostRequest colliding_sdk new_MCPServer post_initialize))
            post_initialize)) =
     [(''1b9d6bcd-bbfd-4b2d-9b5d-ab8dfbbd4bed'', 1)]"
  by (simp add: dispatcher_defs sample_defs Let_def new_MCPServer_def setupTools_def
      setToolSchema_def)

text \<open>
  C9. The claim says that Establish is attempted only when the session id field is
  entirely absent. The guard is \<open>!sessionId\<close>, which an empty header value passes as well.
  What holds: a POST request carrying a non-empty session id that resolves to nothing gets
  the Bad Request envelope with status 400, whatever its body, and the registry and the
  count of transports stay as they were; and a transport is built only when the session
  id is absent or empty.
\<close>

theorem C9_stale_id_never_establishes:
  "(session_header req = Some k \<and> k \<noteq> [] \<and> transports_get (transports s) k = None \<longrightarrow>
      handlePostRequest sdk s req =
        (s\<lparr>uuids_drawn := Suc (uuids_drawn s)\<rparr>,
         Inr (Json 400 (bad_request_envelope (randomUUID sdk (uuids_drawn s))))))
   \<and> (constructed (fst (handlePostRequest sdk s req)) \<noteq> constructed s \<longrightarrow>
      session_header req = None \<or> session_header req = Some [])"
proof -
  have a: "handlePostRequest sdk s req =
      (s\<lparr>uuids_drawn := Suc (uuids_drawn s)\<rparr>,
       Inr (Json 400 (bad_request_envelope (randomUUID sdk (uuids_drawn s)))))"
    if "session_header req = Some k" "k \<noteq> []" "transports_get (transports s) k = None"
    using that by (simp add: handlePostRequest_def resolve_def bad_request_replies)
  have b: "constructed (fst (handlePostRequest sdk s req)) = constructed s"
    if "\<not> (session_header req = None \<or> session_header req = Some [])"
    using that
    by (auto simp: handlePostRequest_def bad_request_replies internal_error_def
        createErrorResponse_def transport_handleRequest_def Let_def
        split: option.split registry_value.split)
  show ?thesis
    using a b by blast
qed

theorem C9_stale_id_never_establishes_witness:
  "handlePostRequest sample_sdk one_session (with_session ''stale-session-id'' initialize_body) =
     (one_session\<lparr>uuids_drawn := 2\<rparr>,
      Inr (Json 400 (JSONRPCError ''2.0'' (- 32000) ''Bad Request: invalid session ID or method.''
                      ''9c5b94b1-35ad-49bb-b118-8e8fc24abf80'')))"
proof -
  have h: "session_header (with_session ''stale-session-id'' initialize_body) =
      Some ''stale-session-id'' \<and> ''stale-session-id'' \<noteq> []
      \<and> transports_get (transports one_session) ''stale-session-id'' = None"
    by (simp add: session_header_def SESSION_ID_HEADER_NAME_def with_session_def
        one_session_eq transports_get_def Object_prototype_keys_def)
  have u: "uuids_drawn one_session = 1"
    "randomUUID sample_sdk 1 = ''9c5b94b1-35ad-49bb-b118-8e8fc24abf80''"
    by (simp_all add: one_session_eq sample_defs)
  show ?thesis
    using C9_stale_id_never_establishes
      [where req = "with_session ''stale-session-id'' initialize_body"
         and k = "''stale-session-id''" and s = one_session and sdk = sample_sdk] h u
    by (simp add: bad_request_envelope_def numeral_2_eq_2)
qed

text \<open>
  C9, the claim as stated fails: a POST request whose session id header is present and
  empty, with an initialize body, is not refused; a transport is built and registered.
\<close>

theorem C9_empty_id_counterexample:
  "snd (handlePostRequest sample_sdk new_MCPServer (with_session [] initialize_body)) =
     Inr (ByTransport 0)
   \<and> transports (fst (handlePostRequest sample_sdk new_MCPServer
                        (with_session [] initialize_body))) =
     [(''1b9d6bcd-bbfd-4b2d-9b5d-ab8dfbbd4bed'', 0)]"
  by (simp add: dispatcher_defs sample_defs Let_def new_MCPServer_def setupTools_def
      setToolSchema_def)

text \<open>
  C10. A call of \<open>get_database_table_ddl\<close> whose arguments object is present but lacks
  \<open>database_type\<close>, \<open>connection_info\<close> or \<open>table_name\<close>, or holds a falsy value for one of
  them, returns the single text "Missing required parameters: database_type,
  connection_info, or table_name."; it does not throw, whereas a call with no arguments
  object throws.
\<close>

theorem C10_missing_parameters_result:
  assumes "\<not> truthy (js_get (JObj kvs) ''database_type'')
     \<or> \<not> truthy (js_get (JObj kvs) ''connection_info'')
     \<or> \<not> truthy (js_get (JObj kvs) ''table_name'')"
  shows "callToolHandler ex (JObj kvs) getDDLToolName =
       Inr [Text ''Missing required parameters: database_type, connection_info, or table_name.'']
     \<and> callToolHandler ex JUndefined getDDLToolName = Inl (Error ''arguments undefined'')"
  using assms
  by (auto simp: callToolHandler_def handleGetDDLTool_def getDDLToolName_def Let_def
      missing_parameters_text_def)

theorem C10_missing_parameters_result_witness:
  "callToolHandler quiet_executor
     (JObj [(''database_type'', JStr ''postgresql''), (''connection_info'', JNull),
            (''table_name'', JStr ''users'')])
     ''get_database_table_ddl'' =
       Inr [Text ''Missing required parameters: database_type, connection_info, or table_name.'']
   \<and> callToolHandler quiet_executor JUndefined ''get_database_table_ddl'' =
       Inl (JsError ''Error'' ''arguments undefined'')"
  using C10_missing_parameters_result
    [where kvs = "[(''database_type'', JStr ''postgresql''), (''connection_info'', JNull),
                   (''table_name'', JStr ''users'')]" and ex = quiet_executor]
  by (simp add: getDDLToolName_def Error_def)

end
